theory Spec2Isabelle
  imports Main
begin

section \<open>Python values\<close>

text \<open>
  The values that reach the configuration accessors: what \<open>yaml.safe_load\<close> produces,
  what the fields of \<open>Settings\<close> hold, and what attribute lookup on the settings object
  can return. A \<open>char\<close> stands for the code point of the same number, so a \<open>string\<close>
  is a Python \<open>str\<close> over the code points below 256. \<open>PDatetime\<close> carries a clock
  reading; \<open>PMethod n\<close> is the bound method \<open>n\<close> of the settings object; \<open>POther t b\<close>
  is any other object (a float, a date, binary data), identified by \<open>t\<close>, whose truth
  value is \<open>b\<close>. Mappings follow the annotation \<open>Dict[str, Any]\<close> of the source: their
  keys are strings, kept in insertion order.
\<close>

datatype pyval =
    PNone
  | PBool bool
  | PInt int
  | PStr string
  | PList "pyval list"
  | PDict "(string \<times> pyval) list"
  | PDatetime int
  | PMethod string
  | POther nat bool

type_synonym pydict = "(string \<times> pyval) list"

text \<open>Truth value of an object, as \<open>not x\<close> and \<open>x or y\<close> test it.\<close>

fun truthy :: "pyval \<Rightarrow> bool" where
  "truthy PNone = False"
| "truthy (PBool b) = b"
| "truthy (PInt i) = (i \<noteq> 0)"
| "truthy (PStr s) = (s \<noteq> [])"
| "truthy (PList xs) = (xs \<noteq> [])"
| "truthy (PDict m) = (m \<noteq> [])"
| "truthy (PDatetime t) = True"
| "truthy (PMethod n) = True"
| "truthy (POther t b) = b"

text \<open>\<open>d.get(k, default)\<close>.\<close>

definition dict_get :: "pydict \<Rightarrow> string \<Rightarrow> pyval \<Rightarrow> pyval" where
  "dict_get d k dflt = (case map_of d k of None \<Rightarrow> dflt | Some v \<Rightarrow> v)"

text \<open>
  \<open>d[k] = v\<close>: an existing key keeps its place and takes the new value, a new key goes
  to the end.
\<close>

fun dict_set :: "string \<Rightarrow> pyval \<Rightarrow> pydict \<Rightarrow> pydict" where
  "dict_set k v [] = [(k, v)]"
| "dict_set k v ((k', v') # d) = (if k' = k then (k, v) # d else (k', v') # dict_set k v d)"

text \<open>\<open>d.update(other)\<close>: the entries of \<open>other\<close> are stored one by one, in order.\<close>

fun dict_update :: "pydict \<Rightarrow> pydict \<Rightarrow> pydict" where
  "dict_update d [] = d"
| "dict_update d ((k, v) # other) = dict_update (dict_set k v d) other"

text \<open>
  \<open>str.lower()\<close> on the code points below 256: the letters A to Z and the capital
  letters of the Latin-1 block (U+00C0 to U+00DE without the multiplication sign U+00D7)
  move up by 32, every other code point stays.
\<close>

definition lower_char :: "char \<Rightarrow> char" where
  "lower_char c =
     (let n = (of_char c :: nat)
      in if (65 \<le> n \<and> n \<le> 90) \<or> (192 \<le> n \<and> n \<le> 222 \<and> n \<noteq> 215)
         then char_of (n + 32) else c)"

definition lower :: "string \<Rightarrow> string" where
  "lower s = map lower_char s"

section \<open>core/config.py: the settings object\<close>

text \<open>
  \<open>class Settings(BaseSettings)\<close>: sixteen typed fields. A field annotated
  \<open>Optional[str]\<close> is a \<open>string option\<close>; the others cannot be \<open>None\<close>.
\<close>

record Settings =
  app_env :: string
  debug :: bool
  host :: string
  port :: int
  log_level :: string
  database_url :: "string option"
  database_echo :: bool
  dhan_base_url :: "string option"
  dhan_trading_client_id :: "string option"
  dhan_trading_access_token :: "string option"
  dhan_data_client_id :: "string option"
  dhan_data_access_token :: "string option"
  dhan_sandbox :: bool
  telegram_bot_token :: "string option"
  telegram_chat_id :: "string option"
  secret_key :: "string option"

text \<open>The declared defaults: the object \<open>Settings()\<close> builds in an empty environment.\<close>

definition Settings_defaults :: Settings where
  "Settings_defaults =
     \<lparr> app_env = ''development'', debug = False, host = ''0.0.0.0'', port = 8000,
       log_level = ''INFO'', database_url = None, database_echo = False,
       dhan_base_url = None, dhan_trading_client_id = None,
       dhan_trading_access_token = None, dhan_data_client_id = None,
       dhan_data_access_token = None, dhan_sandbox = True,
       telegram_bot_token = None, telegram_chat_id = None, secret_key = None \<rparr>"

definition opt_str :: "string option \<Rightarrow> pyval" where
  "opt_str x = (case x of None \<Rightarrow> PNone | Some s \<Rightarrow> PStr s)"

text \<open>\<open>self._settings.dict()\<close>: the fields by name, in declaration order.\<close>

definition Settings_dict :: "Settings \<Rightarrow> pydict" where
  "Settings_dict s =
     [ (''app_env'', PStr (app_env s)),
       (''debug'', PBool (debug s)),
       (''host'', PStr (host s)),
       (''port'', PInt (port s)),
       (''log_level'', PStr (log_level s)),
       (''database_url'', opt_str (database_url s)),
       (''database_echo'', PBool (database_echo s)),
       (''dhan_base_url'', opt_str (dhan_base_url s)),
       (''dhan_trading_client_id'', opt_str (dhan_trading_client_id s)),
       (''dhan_trading_access_token'', opt_str (dhan_trading_access_token s)),
       (''dhan_data_client_id'', opt_str (dhan_data_client_id s)),
       (''dhan_data_access_token'', opt_str (dhan_data_access_token s)),
       (''dhan_sandbox'', PBool (dhan_sandbox s)),
       (''telegram_bot_token'', opt_str (telegram_bot_token s)),
       (''telegram_chat_id'', opt_str (telegram_chat_id s)),
       (''secret_key'', opt_str (secret_key s)) ]"

definition field_names :: "string list" where
  "field_names =
     [ ''app_env'', ''debug'', ''host'', ''port'', ''log_level'', ''database_url'',
       ''database_echo'', ''dhan_base_url'', ''dhan_trading_client_id'',
       ''dhan_trading_access_token'', ''dhan_data_client_id'', ''dhan_data_access_token'',
       ''dhan_sandbox'', ''telegram_bot_token'', ''telegram_chat_id'', ''secret_key'' ]"

text \<open>
  \<open>getattr(settings, name, default)\<close> searches every attribute of the object, not only
  its fields: first the fields, then the members the class inherits from
  \<open>BaseSettings\<close>. Of those the source names one, the method \<open>dict\<close> that
  \<open>settings_dict\<close> and \<open>to_dict\<close> call; the others are not part of this repository
  and are the parameter \<open>inh\<close>, which gives the member of a name if there is one.
\<close>

definition Settings_getattr ::
  "(string \<Rightarrow> pyval option) \<Rightarrow> Settings \<Rightarrow> string \<Rightarrow> pyval \<Rightarrow> pyval" where
  "Settings_getattr inh s name dflt =
     (case map_of (Settings_dict s) name of
        Some v \<Rightarrow> v
      | None \<Rightarrow>
          if name = ''dict'' then PMethod ''dict''
          else (case inh name of Some m \<Rightarrow> m | None \<Rightarrow> dflt))"

section \<open>Exceptions\<close>

text \<open>
  The exceptions the modelled code can raise. All of them are subclasses of
  \<open>Exception\<close>, so the handler \<open>except Exception\<close> of \<open>_load_yaml\<close> catches each.
\<close>

datatype error =
    OSError
  | UnicodeDecodeError
  | YAMLError
  | ValidationError
  | AttributeError
  | TypeError
  | ValueError
  | RuntimeError string

section \<open>core/config.py: the Config wrapper\<close>

text \<open>
  \<open>class Config\<close> holds the settings object and what was read from the YAML file
  (\<open>self._settings\<close>, \<open>self._yaml\<close>). The annotation of \<open>yaml_config\<close> is
  \<open>Optional[Dict[str, Any]]\<close>, but nothing checks it: \<open>self._yaml\<close> is whatever object
  the constructor is given, so it is a \<open>pyval\<close> here.
\<close>

record Config =
  c_settings :: Settings
  c_yaml :: pyval

text \<open>
  \<open>Config.__init__\<close>: \<open>self._yaml = yaml_config or {}\<close>. An omitted argument is
  \<open>None\<close>.
\<close>

definition Config_init :: "Settings \<Rightarrow> pyval \<Rightarrow> Config" where
  "Config_init s yaml_config =
     \<lparr> c_settings = s,
       c_yaml = (if truthy yaml_config then yaml_config else PDict []) \<rparr>"

definition get_env ::
  "(string \<Rightarrow> pyval option) \<Rightarrow> Config \<Rightarrow> string \<Rightarrow> pyval \<Rightarrow> pyval" where
  "get_env inh cfg key dflt =
     (let attr = lower key in Settings_getattr inh (c_settings cfg) attr dflt)"

definition settings_dict :: "Config \<Rightarrow> pydict" where
  "settings_dict cfg = Settings_dict (c_settings cfg)"

text \<open>
  The method call \<open>self._yaml.get(k, default)\<close>. Only a mapping has a method
  \<open>get\<close>: on a list, a string, a number or any other object the attribute lookup
  raises \<open>AttributeError\<close>.
\<close>

fun yaml_get :: "pyval \<Rightarrow> string \<Rightarrow> pyval \<Rightarrow> error + pyval" where
  "yaml_get (PDict d) k dflt = Inr (dict_get d k dflt)"
| "yaml_get v k dflt = Inl AttributeError"

definition get :: "Config \<Rightarrow> string \<Rightarrow> string \<Rightarrow> pyval \<Rightarrow> error + pyval" where
  "get cfg section key dflt =
     (case yaml_get (c_yaml cfg) section (PDict []) of
        Inl e \<Rightarrow> Inl e
      | Inr section_dict \<Rightarrow>
          (case section_dict of
             PDict sd \<Rightarrow> Inr (dict_get sd key dflt)
           | _ \<Rightarrow> Inr dflt))"

definition get_section :: "Config \<Rightarrow> string \<Rightarrow> pyval \<Rightarrow> error + pyval" where
  "get_section cfg section dflt = yaml_get (c_yaml cfg) section dflt"

text \<open>
  The test \<open>env_val not in (None, "", [])\<close> of \<open>__getitem__\<close> compares with \<open>==\<close>.
  Among the values above only \<open>None\<close> equals \<open>None\<close>, only the empty string equals
  \<open>""\<close> and only the empty list equals \<open>[]\<close>; \<open>False\<close> and \<open>0\<close> equal none of them.
\<close>

definition in_empties :: "pyval \<Rightarrow> bool" where
  "in_empties v = (v = PNone \<or> v = PStr [] \<or> v = PList [])"

definition getitem ::
  "(string \<Rightarrow> pyval option) \<Rightarrow> Config \<Rightarrow> string \<Rightarrow> error + pyval" where
  "getitem inh cfg key =
     (let env_val = get_env inh cfg key PNone
      in if \<not> in_empties env_val then Inr env_val
         else yaml_get (c_yaml cfg) key PNone)"

text \<open>
  \<open>to_dict\<close> starts from \<open>dict(self._yaml)\<close>: the copy of a mapping. On an object that
  is not a mapping the conversion is Python's built-in one, which is no code of this
  repository and is the parameter \<open>dict_of\<close>: it raises (\<open>TypeError\<close>, \<open>ValueError\<close>)
  or builds a mapping from a sequence of pairs.
\<close>

definition to_dict :: "(pyval \<Rightarrow> error + pydict) \<Rightarrow> Config \<Rightarrow> error + pydict" where
  "to_dict dict_of cfg =
     (case (case c_yaml cfg of PDict y \<Rightarrow> Inr y | v \<Rightarrow> dict_of v) of
        Inl e \<Rightarrow> Inl e
      | Inr merged \<Rightarrow>
          Inr (dict_update merged
                 (filter (\<lambda>(k, v). v \<noteq> PNone) (Settings_dict (c_settings cfg)))))"

section \<open>core/config.py: loading the YAML file\<close>

text \<open>
  What the loader meets at a path: no file (\<open>path.exists()\<close> is false); a path whose
  \<open>exists()\<close> or \<open>open()\<close> raises \<open>OSError\<close>; a file whose bytes are not UTF-8; a
  file \<open>yaml.safe_load\<close> rejects; a file that parses, to the object
  \<open>yaml.safe_load\<close> returns: \<open>None\<close> for an empty document, a mapping, but also a
  list or a scalar when the document has such a root.
\<close>

datatype file_state =
    Missing
  | StatFails
  | OpenFails
  | DecodeFails
  | ParseFails
  | Parsed pyval

text \<open>
  The body of the \<open>try\<close> block of \<open>_load_yaml\<close>. Its last line is
  \<open>return yaml.safe_load(fh) or {}\<close>: a parsed object that is true is returned as it
  is, whether or not it is a mapping.
\<close>

fun load_yaml_try :: "file_state \<Rightarrow> error + pyval" where
  "load_yaml_try StatFails = Inl OSError"
| "load_yaml_try Missing = Inr (PDict [])"
| "load_yaml_try OpenFails = Inl OSError"
| "load_yaml_try DecodeFails = Inl UnicodeDecodeError"
| "load_yaml_try ParseFails = Inl YAMLError"
| "load_yaml_try (Parsed y) = Inr (if truthy y then y else PDict [])"

text \<open>\<open>_load_yaml\<close>: the \<open>try\<close> block under \<open>except Exception: return {}\<close>.\<close>

definition load_yaml :: "file_state \<Rightarrow> error + pyval" where
  "load_yaml st = (case load_yaml_try st of Inl e \<Rightarrow> Inr (PDict []) | Inr y \<Rightarrow> Inr y)"

section \<open>core/config.py: get_config and its cache\<close>

text \<open>
  A path is the module constant \<open>YAML_PATH\<close> or \<open>Path(p)\<close> for a string \<open>p\<close>. The
  world of one call of \<open>get_config\<close> is the state of the file at every path and the
  outcome of \<open>Settings()\<close>, which reads and validates the environment: the settings
  object, or the validation error it raises.
\<close>

datatype path = YAML_PATH | Path string

record world =
  w_files :: "path \<Rightarrow> file_state"
  w_Settings :: "error + Settings"

text \<open>The body of \<open>get_config(yaml_path)\<close>, below the decorator.\<close>

definition get_config_body :: "world \<Rightarrow> string option \<Rightarrow> error + Config" where
  "get_config_body w yaml_path =
     (let yaml_p = (case yaml_path of
                      None \<Rightarrow> YAML_PATH
                    | Some p \<Rightarrow> if truthy (PStr p) then Path p else YAML_PATH)
      in case load_yaml (w_files w yaml_p) of
           Inl e \<Rightarrow> Inl e
         | Inr yaml_cfg \<Rightarrow>
             (case w_Settings w of
                Inl e \<Rightarrow> Inl e
              | Inr settings \<Rightarrow> Inr (Config_init settings yaml_cfg)))"

text \<open>
  \<open>@lru_cache()\<close> keys its table by the arguments as they are written in the call:
  \<open>get_config()\<close>, \<open>get_config(p)\<close> and \<open>get_config(yaml_path=p)\<close> are three
  different keys, also when \<open>p\<close> is \<open>None\<close>.
\<close>

datatype call_args = NoArgs | Positional "string option" | Keyword "string option"

fun arg_value :: "call_args \<Rightarrow> string option" where
  "arg_value NoArgs = None"
| "arg_value (Positional p) = p"
| "arg_value (Keyword p) = p"

text \<open>
  A \<open>Config\<close> object is never changed after its construction, so an object is its
  identity (a number, fresh at each construction) with its contents. The process state
  is the table of the cache, most recently used entry first, and the next identity.
\<close>

type_synonym config_obj = "nat \<times> Config"

record process =
  cache :: "(call_args \<times> config_obj) list"
  next_id :: nat

definition process_start :: process where
  "process_start = \<lparr> cache = [], next_id = 0 \<rparr>"

text \<open>\<open>lru_cache()\<close> is called without arguments: the table holds 128 entries.\<close>

definition lru_maxsize :: nat where
  "lru_maxsize = 128"

text \<open>
  One call of the decorated \<open>get_config\<close>. A hit returns the stored object and makes
  its entry the most recent one. A miss runs the body; an exception passes through and
  stores nothing; a result is stored as the most recent entry, in place of the least
  recently used one when the table is full.
\<close>

definition get_config :: "world \<Rightarrow> call_args \<Rightarrow> process \<Rightarrow> (error + config_obj) \<times> process" where
  "get_config w args st =
     (case map_of (cache st) args of
        Some obj \<Rightarrow>
          (Inr obj, st\<lparr> cache := (args, obj) # filter (\<lambda>e. fst e \<noteq> args) (cache st) \<rparr>)
      | None \<Rightarrow>
          (case get_config_body w (arg_value args) of
             Inl e \<Rightarrow> (Inl e, st)
           | Inr c \<Rightarrow>
               (let obj = (next_id st, c);
                    kept = (if length (cache st) \<ge> lru_maxsize
                            then butlast (cache st) else cache st)
                in (Inr obj, \<lparr> cache = (args, obj) # kept, next_id = Suc (next_id st) \<rparr>))))"

text \<open>A run of calls, each in the world of its moment; the results are dropped.\<close>

fun run_calls :: "(world \<times> call_args) list \<Rightarrow> process \<Rightarrow> process" where
  "run_calls [] st = st"
| "run_calls ((w, args) # cs) st = run_calls cs (snd (get_config w args st))"

section \<open>db/init_db.py: the module body\<close>

text \<open>
  Importing \<open>init_db\<close> runs its top level: \<open>cfg = get_config()\<close>,
  \<open>DATABASE_URL = cfg.get_env("DATABASE_URL")\<close>, the check
  \<open>if not DATABASE_URL: raise RuntimeError(...)\<close>, and then the two globals that start
  as \<open>None\<close>.
\<close>

record init_db_module =
  m_cfg :: config_obj
  m_DATABASE_URL :: pyval
  m_engine :: "unit option"
  m_AsyncSessionLocal :: "unit option"

definition import_init_db ::
  "(string \<Rightarrow> pyval option) \<Rightarrow> world \<Rightarrow> process \<Rightarrow> (error + init_db_module) \<times> process" where
  "import_init_db inh w st =
     (case get_config w NoArgs st of
        (Inl e, st') \<Rightarrow> (Inl e, st')
      | (Inr cfg, st') \<Rightarrow>
          (let url = get_env inh (snd cfg) ''DATABASE_URL'' PNone
           in if \<not> truthy url
              then (Inl (RuntimeError ''DATABASE_URL not set in environment or config.''), st')
              else (Inr \<lparr> m_cfg = cfg, m_DATABASE_URL = url,
                         m_engine = None, m_AsyncSessionLocal = None \<rparr>, st')))"

section \<open>db/models.py: the table models\<close>

text \<open>
  Each class of \<open>models.py\<close> is a table name and its field declarations in source
  order: the name, the annotated type, whether the annotation is \<open>Optional\<close>, and the
  default. A field without a default is required (also one that calls \<open>Field\<close> with only
  \<open>sa_column\<close>); \<open>Field(default_factory=datetime.utcnow)\<close> reads the clock.
\<close>

datatype pytype = TInt | TStr | TFloat | TDatetime | TDate

datatype default_spec = Required | Default pyval | DefaultFactory_utcnow

datatype field_decl =
  FieldDecl (fname: string) (ftype: pytype) (optional: bool) (fdefault: default_spec)

record model =
  tablename :: string
  field_decls :: "field_decl list"

definition User :: model where
  "User =
     \<lparr> tablename = ''users'',
       field_decls =
         [ FieldDecl ''id'' TInt True (Default PNone),
           FieldDecl ''first_name'' TStr True (Default PNone),
           FieldDecl ''last_name'' TStr True (Default PNone),
           FieldDecl ''email'' TStr True (Default PNone),
           FieldDecl ''password_hash'' TStr True (Default PNone),
           FieldDecl ''dhan_client_id'' TStr True (Default PNone),
           FieldDecl ''created_at'' TDatetime False DefaultFactory_utcnow ] \<rparr>"

definition AllInstrumentsList :: model where
  "AllInstrumentsList =
     \<lparr> tablename = ''all_instruments_list'',
       field_decls =
         [ FieldDecl ''id'' TInt True (Default PNone),
           FieldDecl ''sem_exm_exch_id'' TStr True (Default PNone),
           FieldDecl ''sem_segment'' TStr True (Default PNone),
           FieldDecl ''sem_smst_security_id'' TStr True (Default PNone),
           FieldDecl ''sem_instrument_name'' TStr True (Default PNone),
           FieldDecl ''sem_expiry_code'' TStr True (Default PNone),
           FieldDecl ''sem_trading_symbol'' TStr True (Default PNone),
           FieldDecl ''sem_lot_units'' TStr True (Default PNone),
           FieldDecl ''sem_custom_symbol'' TStr True (Default PNone),
           FieldDecl ''sem_expiry_date'' TStr True (Default PNone),
           FieldDecl ''sem_strike_price'' TStr True (Default PNone),
           FieldDecl ''sem_option_type'' TStr True (Default PNone),
           FieldDecl ''sem_tick_size'' TStr True (Default PNone),
           FieldDecl ''sem_expiry_flag'' TStr True (Default PNone),
           FieldDecl ''sem_exch_instrument_type'' TStr True (Default PNone),
           FieldDecl ''sem_series'' TStr True (Default PNone),
           FieldDecl ''sm_symbol_name'' TStr True (Default PNone),
           FieldDecl ''created_at'' TDatetime False DefaultFactory_utcnow ] \<rparr>"

definition InstrumentMaster :: model where
  "InstrumentMaster =
     \<lparr> tablename = ''instrument_master'',
       field_decls =
         [ FieldDecl ''security_id'' TInt False Required,
           FieldDecl ''exchange_segment'' TStr False Required,
           FieldDecl ''trading_symbol'' TStr True (Default PNone),
           FieldDecl ''exchange'' TStr True (Default PNone),
           FieldDecl ''segment'' TStr True (Default PNone),
           FieldDecl ''instrument'' TStr True (Default PNone),
           FieldDecl ''underlying'' TStr True (Default PNone),
           FieldDecl ''expiry_code'' TInt True (Default PNone),
           FieldDecl ''expiry_flag'' TStr True (Default PNone),
           FieldDecl ''expiry_date'' TDate True (Default PNone),
           FieldDecl ''option_type'' TStr True (Default PNone),
           FieldDecl ''strike_price'' TFloat True (Default PNone),
           FieldDecl ''lot_size'' TInt True (Default PNone),
           FieldDecl ''created_at'' TDatetime False DefaultFactory_utcnow ] \<rparr>"

definition TradePlan :: model where
  "TradePlan =
     \<lparr> tablename = ''trade_plan'',
       field_decls =
         [ FieldDecl ''trade_id'' TInt True (Default PNone),
           FieldDecl ''user_id'' TInt True (Default PNone),
           FieldDecl ''trading_symbol'' TStr False Required,
           FieldDecl ''exchange'' TStr False (Default (PStr ''NSE'')),
           FieldDecl ''instrument'' TStr False Required,
           FieldDecl ''time_frame'' TStr False Required,
           FieldDecl ''trade_direction'' TStr False Required,
           FieldDecl ''trade_type'' TStr False Required,
           FieldDecl ''trade_setup'' TStr False Required,
           FieldDecl ''entry_price'' TFloat True (Default PNone),
           FieldDecl ''stop_loss'' TFloat True (Default PNone),
           FieldDecl ''target_price'' TFloat True (Default PNone),
           FieldDecl ''signal'' TStr True (Default PNone),
           FieldDecl ''probability'' TStr True (Default PNone),
           FieldDecl ''score'' TFloat True (Default PNone),
           FieldDecl ''execution_strategy'' TStr True (Default PNone),
           FieldDecl ''execution_flag'' TStr False (Default (PStr ''Disabled'')),
           FieldDecl ''status'' TStr True (Default PNone),
           FieldDecl ''notes'' TStr True (Default PNone),
           FieldDecl ''created_at'' TDatetime False DefaultFactory_utcnow,
           FieldDecl ''updated_at'' TDatetime False DefaultFactory_utcnow ] \<rparr>"

definition LiveTrade :: model where
  "LiveTrade =
     \<lparr> tablename = ''live_trades'',
       field_decls =
         [ FieldDecl ''id'' TInt True (Default PNone),
           FieldDecl ''user_id'' TInt True (Default PNone),
           FieldDecl ''trade_id'' TInt True (Default PNone),
           FieldDecl ''trading_symbol'' TStr False Required,
           FieldDecl ''exchange'' TStr False (Default (PStr ''NSE'')),
           FieldDecl ''instrument'' TStr False Required,
           FieldDecl ''ltp'' TFloat True (Default PNone),
           FieldDecl ''transaction_type'' TStr True (Default PNone),
           FieldDecl ''entry_order_id'' TStr True (Default PNone),
           FieldDecl ''entry_price'' TFloat True (Default PNone),
           FieldDecl ''entry_quantity'' TInt True (Default PNone),
           FieldDecl ''entry_date'' TDatetime True (Default PNone),
           FieldDecl ''entry_time'' TStr True (Default PNone),
           FieldDecl ''exit_order_id'' TStr True (Default PNone),
           FieldDecl ''exit_price'' TFloat True (Default PNone),
           FieldDecl ''exit_quantity'' TInt True (Default PNone),
           FieldDecl ''exit_date'' TDatetime True (Default PNone),
           FieldDecl ''exit_time'' TStr True (Default PNone),
           FieldDecl ''status'' TStr False (Default (PStr ''Traded'')),
           FieldDecl ''remark'' TStr True (Default PNone) ] \<rparr>"

definition TradeLog :: model where
  "TradeLog =
     \<lparr> tablename = ''trade_log'',
       field_decls =
         [ FieldDecl ''id'' TInt True (Default PNone),
           FieldDecl ''user_id'' TInt True (Default PNone),
           FieldDecl ''trade_id'' TStr True (Default PNone),
           FieldDecl ''trading_symbol'' TStr True (Default PNone),
           FieldDecl ''exchange'' TStr False (Default (PStr ''NSE'')),
           FieldDecl ''instrument'' TStr True (Default PNone),
           FieldDecl ''trade_direction'' TStr True (Default PNone),
           FieldDecl ''trade_type'' TStr True (Default PNone),
           FieldDecl ''trade_setup'' TStr True (Default PNone),
           FieldDecl ''probability'' TStr True (Default PNone),
           FieldDecl ''execution_strategy'' TStr True (Default PNone),
           FieldDecl ''entry_date'' TDatetime True (Default PNone),
           FieldDecl ''entry_time'' TStr True (Default PNone),
           FieldDecl ''exit_date'' TDatetime True (Default PNone),
           FieldDecl ''exit_time'' TStr True (Default PNone),
           FieldDecl ''pnl'' TFloat True (Default PNone),
           FieldDecl ''roi'' TStr True (Default PNone),
           FieldDecl ''risk_reward'' TStr True (Default PNone),
           FieldDecl ''holding_period'' TStr True (Default PNone),
           FieldDecl ''remark'' TStr True (Default PNone),
           FieldDecl ''notes'' TStr True (Default PNone),
           FieldDecl ''created_at'' TDatetime False DefaultFactory_utcnow ] \<rparr>"

definition TradeLogDetail :: model where
  "TradeLogDetail =
     \<lparr> tablename = ''trade_log_detail'',
       field_decls =
         [ FieldDecl ''id'' TInt True (Default PNone),
           FieldDecl ''user_id'' TInt True (Default PNone),
           FieldDecl ''trade_id'' TStr True (Default PNone),
           FieldDecl ''trading_symbol'' TStr True (Default PNone),
           FieldDecl ''exchange'' TStr False (Default (PStr ''NSE'')),
           FieldDecl ''instrument'' TStr True (Default PNone),
           FieldDecl ''entry_order_id'' TStr True (Default PNone),
           FieldDecl ''entry_price'' TFloat True (Default PNone),
           FieldDecl ''entry_quantity'' TInt True (Default PNone),
           FieldDecl ''exit_order_id'' TStr True (Default PNone),
           FieldDecl ''exit_price'' TFloat True (Default PNone),
           FieldDecl ''exit_quantity'' TInt True (Default PNone),
           FieldDecl ''created_at'' TDatetime False DefaultFactory_utcnow ] \<rparr>"

definition TradeHistory :: model where
  "TradeHistory =
     \<lparr> tablename = ''trade_history'',
       field_decls =
         [ FieldDecl ''id'' TInt True (Default PNone),
           FieldDecl ''user_id'' TInt True (Default PNone),
           FieldDecl ''order_id'' TStr True (Default PNone),
           FieldDecl ''exchange_order_id'' TStr True (Default PNone),
           FieldDecl ''exchange_trade_id'' TStr True (Default PNone),
           FieldDecl ''transaction_type'' TStr True (Default PNone),
           FieldDecl ''exchange_segment'' TStr True (Default PNone),
           FieldDecl ''product_type'' TStr True (Default PNone),
           FieldDecl ''order_type'' TStr True (Default PNone),
           FieldDecl ''trading_symbol'' TStr True (Default PNone),
           FieldDecl ''custom_symbol'' TStr True (Default PNone),
           FieldDecl ''security_id'' TStr True (Default PNone),
           FieldDecl ''traded_quantity'' TInt True (Default PNone),
           FieldDecl ''traded_price'' TFloat True (Default PNone),
           FieldDecl ''isin'' TStr True (Default PNone),
           FieldDecl ''instrument'' TStr True (Default PNone),
           FieldDecl ''sebi_tax'' TFloat True (Default PNone),
           FieldDecl ''stt'' TFloat True (Default PNone),
           FieldDecl ''brokerage_charges'' TFloat True (Default PNone),
           FieldDecl ''service_tax'' TFloat True (Default PNone),
           FieldDecl ''exchange_transaction_charges'' TFloat True (Default PNone),
           FieldDecl ''stamp_duty'' TFloat True (Default PNone),
           FieldDecl ''exchange_time'' TDatetime True (Default PNone),
           FieldDecl ''drv_expiry_date'' TStr True (Default PNone),
           FieldDecl ''drv_option_type'' TStr True (Default PNone),
           FieldDecl ''drv_strike_price'' TFloat True (Default PNone),
           FieldDecl ''created_at'' TDatetime False DefaultFactory_utcnow ] \<rparr>"

definition LedgerReport :: model where
  "LedgerReport =
     \<lparr> tablename = ''ledger_report'',
       field_decls =
         [ FieldDecl ''id'' TInt True (Default PNone),
           FieldDecl ''user_id'' TInt True (Default PNone),
           FieldDecl ''narration'' TStr True (Default PNone),
           FieldDecl ''voucher_date'' TDatetime True (Default PNone),
           FieldDecl ''exchange'' TStr True (Default PNone),
           FieldDecl ''voucher_desc'' TStr True (Default PNone),
           FieldDecl ''voucher_number'' TStr True (Default PNone),
           FieldDecl ''debit'' TFloat True (Default PNone),
           FieldDecl ''credit'' TFloat True (Default PNone),
           FieldDecl ''running_balance'' TFloat True (Default PNone),
           FieldDecl ''created_at'' TDatetime False DefaultFactory_utcnow ] \<rparr>"

definition IndicatorData :: model where
  "IndicatorData =
     \<lparr> tablename = ''indicator_data'',
       field_decls =
         [ FieldDecl ''id'' TInt True (Default PNone),
           FieldDecl ''trading_symbol'' TStr True (Default PNone),
           FieldDecl ''security_id'' TStr True (Default PNone),
           FieldDecl ''exchange_segment'' TStr True (Default PNone),
           FieldDecl ''timeframe'' TStr True (Default PNone),
           FieldDecl ''datetime'' TDatetime True (Default PNone),
           FieldDecl ''open'' TFloat True (Default PNone),
           FieldDecl ''high'' TFloat True (Default PNone),
           FieldDecl ''low'' TFloat True (Default PNone),
           FieldDecl ''close'' TFloat True (Default PNone),
           FieldDecl ''volume'' TFloat True (Default PNone),
           FieldDecl ''vwap'' TFloat True (Default PNone),
           FieldDecl ''volume_sma_10'' TFloat True (Default PNone),
           FieldDecl ''ha_open'' TFloat True (Default PNone),
           FieldDecl ''ha_high'' TFloat True (Default PNone),
           FieldDecl ''ha_low'' TFloat True (Default PNone),
           FieldDecl ''ha_close'' TFloat True (Default PNone),
           FieldDecl ''ema_5'' TFloat True (Default PNone),
           FieldDecl ''ema_13'' TFloat True (Default PNone),
           FieldDecl ''ema_26'' TFloat True (Default PNone),
           FieldDecl ''ema_50'' TFloat True (Default PNone),
           FieldDecl ''ema_100'' TFloat True (Default PNone),
           FieldDecl ''ema_200'' TFloat True (Default PNone),
           FieldDecl ''rsi_14'' TFloat True (Default PNone),
           FieldDecl ''macd_line'' TFloat True (Default PNone),
           FieldDecl ''macd_signal'' TFloat True (Default PNone),
           FieldDecl ''macd_hist'' TFloat True (Default PNone),
           FieldDecl ''stochastic_k'' TFloat True (Default PNone),
           FieldDecl ''stochastic_d'' TFloat True (Default PNone),
           FieldDecl ''bollinger_upper_2'' TFloat True (Default PNone),
           FieldDecl ''bollinger_middle_2'' TFloat True (Default PNone),
           FieldDecl ''bollinger_lower_2'' TFloat True (Default PNone),
           FieldDecl ''bollinger_upper_3'' TFloat True (Default PNone),
           FieldDecl ''bollinger_middle_3'' TFloat True (Default PNone),
           FieldDecl ''bollinger_lower_3'' TFloat True (Default PNone),
           FieldDecl ''plus_di_14'' TFloat True (Default PNone),
           FieldDecl ''minus_di_14'' TFloat True (Default PNone),
           FieldDecl ''adx_14'' TFloat True (Default PNone),
           FieldDecl ''atr_14'' TFloat True (Default PNone),
           FieldDecl ''historic_volatility'' TFloat True (Default PNone),
           FieldDecl ''supertrend'' TStr True (Default PNone) ] \<rparr>"

definition all_models :: "model list" where
  "all_models =
     [ User, AllInstrumentsList, InstrumentMaster, TradePlan, LiveTrade, TradeLog,
       TradeLogDetail, TradeHistory, LedgerReport, IndicatorData ]"

text \<open>
  Constructing a row, \<open>Model(**kwargs)\<close>: each declared field takes the supplied value,
  else its default; a default factory is called then, and the \<open>n\<close>-th call of
  \<open>datetime.utcnow\<close> during the construction returns \<open>clock n\<close>. A required field
  that is not supplied stays unset (a table model does not raise on it), and a keyword
  that names no field is dropped.
\<close>

fun construct_fields :: "field_decl list \<Rightarrow> pydict \<Rightarrow> (nat \<Rightarrow> int) \<Rightarrow> nat \<Rightarrow> pydict" where
  "construct_fields [] kwargs clock n = []"
| "construct_fields (f # fs) kwargs clock n =
     (case map_of kwargs (fname f) of
        Some v \<Rightarrow> (fname f, v) # construct_fields fs kwargs clock n
      | None \<Rightarrow>
          (case fdefault f of
             Required \<Rightarrow> construct_fields fs kwargs clock n
           | Default v \<Rightarrow> (fname f, v) # construct_fields fs kwargs clock n
           | DefaultFactory_utcnow \<Rightarrow>
               (fname f, PDatetime (clock n)) # construct_fields fs kwargs clock (Suc n)))"

definition construct :: "model \<Rightarrow> pydict \<Rightarrow> (nat \<Rightarrow> int) \<Rightarrow> pydict" where
  "construct m kwargs clock = construct_fields (field_decls m) kwargs clock 0"

text \<open>The values the comment on \<open>TradePlan.execution_flag\<close> lists.\<close>

definition execution_flags :: "string list" where
  "execution_flags = [''Disabled'', ''Enabled'', ''Traded'', ''Exited'']"

text \<open>
  \<open>reads_clock_first k fs\<close>: the field \<open>k\<close> is declared in \<open>fs\<close> with the clock as
  its default factory, and no field before it has a default factory, so that the
  construction reads the clock for \<open>k\<close> first.
\<close>

fun reads_clock_first :: "string \<Rightarrow> field_decl list \<Rightarrow> bool" where
  "reads_clock_first k [] = False"
| "reads_clock_first k (f # fs) =
     (if fname f = k then fdefault f = DefaultFactory_utcnow
      else fdefault f \<noteq> DefaultFactory_utcnow \<and> reads_clock_first k fs)"

text \<open>A clock for the examples: it advances by one at each reading.\<close>

definition sample_clock :: "nat \<Rightarrow> int" where
  "sample_clock n = 1700000000 + int n"

text \<open>
  For the examples: a settings class that inherits no member besides \<open>dict\<close>, a
  conversion \<open>dict(x)\<close> that raises on every object that is not a mapping, a world
  (no YAML file at any path, an empty environment), and a run
  of \<open>n\<close> calls \<open>get_config(p)\<close> with \<open>n\<close> different paths \<open>p\<close>, the strings
  \<open>"p"\<close>, \<open>"pp"\<close>, \<open>"ppp"\<close> and so on.
\<close>

definition sample_inherited :: "string \<Rightarrow> pyval option" where
  "sample_inherited name = None"

definition sample_dict_of :: "pyval \<Rightarrow> error + pydict" where
  "sample_dict_of v = Inl TypeError"

definition sample_world :: world where
  "sample_world = \<lparr> w_files = (\<lambda>p. Missing), w_Settings = Inr Settings_defaults \<rparr>"

definition override_calls :: "nat \<Rightarrow> (world \<times> call_args) list" where
  "override_calls n =
     map (\<lambda>i. (sample_world, Positional (Some (replicate (Suc i) CHR ''p'')))) [0..<n]"

section \<open>Lemmas on mappings\<close>

lemma map_of_dict_set: "map_of (dict_set k v d) = (map_of d)(k \<mapsto> v)"
  by (induction d) auto

lemma map_of_dict_update:
  "distinct (map fst other) \<Longrightarrow>
   map_of (dict_update d other) k =
     (case map_of other k of Some v \<Rightarrow> Some v | None \<Rightarrow> map_of d k)"
proof (induction other arbitrary: d)
  case Nil
  show ?case by simp
next
  case (Cons p other)
  obtain k' v' where p: "p = (k', v')" by (cases p)
  from Cons.prems p have fresh: "map_of other k' = None" and dist: "distinct (map fst other)"
    by (auto simp: map_of_eq_None_iff)
  show ?case
    using Cons.IH[OF dist, of "dict_set k' v' d"] fresh
    by (auto simp: p map_of_dict_set split: option.splits)
qed

lemma distinct_Settings_dict: "distinct (map fst (Settings_dict s))"
  by (simp add: Settings_dict_def)

lemma distinct_filter_fst: "distinct (map fst xs) \<Longrightarrow> distinct (map fst (filter P xs))"
  by (induction xs) auto

lemma map_of_filter_value:
  "distinct (map fst xs) \<Longrightarrow>
   map_of (filter (\<lambda>(k, v). Q v) xs) k =
     (case map_of xs k of Some v \<Rightarrow> if Q v then Some v else None | None \<Rightarrow> None)"
proof (induction xs)
  case Nil
  show ?case by simp
next
  case (Cons p xs)
  obtain k' v' where p: "p = (k', v')" by (cases p)
  from Cons.prems p have "map_of xs k' = None" and "distinct (map fst xs)"
    by (auto simp: map_of_eq_None_iff)
  with Cons.IH show ?case
    by (auto simp: p split: option.splits)
qed

section \<open>The accessors of the YAML mapping\<close>

text \<open>
  When the object read from the YAML file is a mapping, \<open>get(section, key, default)\<close>
  returns the value stored under \<open>key\<close> in the mapping stored under \<open>section\<close>, and
  \<open>default\<close> when the mapping has no entry \<open>section\<close>, when that entry is not a
  mapping, and when the section has no entry \<open>key\<close>.
\<close>

lemma get_on_mapping:
  assumes "c_yaml cfg = PDict y"
  shows "(map_of y section = Some (PDict sd) \<and> map_of sd key = Some v
            \<longrightarrow> get cfg section key dflt = Inr v) \<and>
         (map_of y section = None \<longrightarrow> get cfg section key dflt = Inr dflt) \<and>
         (map_of y section = Some x \<and> (\<forall>m. x \<noteq> PDict m)
            \<longrightarrow> get cfg section key dflt = Inr dflt) \<and>
         (map_of y section = Some (PDict sd) \<and> map_of sd key = None
            \<longrightarrow> get cfg section key dflt = Inr dflt)"
  using assms by (auto simp: get_def dict_get_def split: pyval.splits)

lemma get_section_on_mapping:
  "c_yaml cfg = PDict y \<Longrightarrow> get_section cfg section dflt = Inr (dict_get y section dflt)"
  by (simp add: get_section_def)

lemma load_yaml_keeps_root:
  "truthy y \<Longrightarrow> load_yaml (Parsed y) = Inr y"
  by (simp add: load_yaml_def)

text \<open>
  C7. \<open>get(section, key, default)\<close> is to return \<open>default\<close> when the section is
  missing from the YAML file. For a file whose root is the list \<open>["a", "b"]\<close> the
  loader returns that list (not a mapping, against its annotation and docstring), the
  \<open>Config\<close> built from it holds the list, and \<open>get("risk_limits", "max_position", 0)\<close>
  raises \<open>AttributeError\<close> and does not return the default \<open>0\<close>.
\<close>

theorem get_raises_on_list_root:
  "load_yaml (Parsed (PList [PStr ''a'', PStr ''b''])) = Inr (PList [PStr ''a'', PStr ''b'']) \<and>
   c_yaml (Config_init s (PList [PStr ''a'', PStr ''b''])) = PList [PStr ''a'', PStr ''b''] \<and>
   get (Config_init s (PList [PStr ''a'', PStr ''b''])) ''risk_limits'' ''max_position'' (PInt 0)
     = Inl AttributeError"
  by (simp add: load_yaml_def Config_init_def get_def)

section \<open>The merged view\<close>

text \<open>
  C2. On a YAML mapping \<open>to_dict()\<close> returns a mapping that holds every field of the
  settings object whose value is not \<open>None\<close>, under the field's name and with the
  field's value, also when the YAML mapping has an entry of that name; and that holds
  every entry of the YAML mapping whose key is not the name of a field with a value
  other than \<open>None\<close>.
\<close>

theorem to_dict_merge:
  assumes "c_yaml cfg = PDict y"
  shows "\<exists>r. to_dict dict_of cfg = Inr r \<and>
           (\<forall>k v. map_of (Settings_dict (c_settings cfg)) k = Some v \<and> v \<noteq> PNone
               \<longrightarrow> map_of r k = Some v) \<and>
           (\<forall>k v. map_of y k = Some v \<and>
                  \<not> (\<exists>w. map_of (Settings_dict (c_settings cfg)) k = Some w \<and> w \<noteq> PNone)
               \<longrightarrow> map_of r k = Some v)"
proof -
  let ?sd = "Settings_dict (c_settings cfg)"
  let ?r = "dict_update y (filter (\<lambda>(k, v). v \<noteq> PNone) ?sd)"
  have res: "to_dict dict_of cfg = Inr ?r"
    using assms by (simp add: to_dict_def)
  have d: "distinct (map fst ?sd)" by (rule distinct_Settings_dict)
  have look: "map_of ?r k =
      (case map_of (filter (\<lambda>(k, v). v \<noteq> PNone) ?sd) k of
         Some v \<Rightarrow> Some v | None \<Rightarrow> map_of y k)" for k
    by (rule map_of_dict_update) (rule distinct_filter_fst [OF d])
  have flt: "map_of (filter (\<lambda>(k, v). v \<noteq> PNone) ?sd) k =
      (case map_of ?sd k of Some v \<Rightarrow> if v \<noteq> PNone then Some v else None | None \<Rightarrow> None)" for k
    by (rule map_of_filter_value [OF d])
  have "(\<forall>k v. map_of ?sd k = Some v \<and> v \<noteq> PNone \<longrightarrow> map_of ?r k = Some v) \<and>
        (\<forall>k v. map_of y k = Some v \<and> \<not> (\<exists>w. map_of ?sd k = Some w \<and> w \<noteq> PNone)
           \<longrightarrow> map_of ?r k = Some v)"
    by (auto simp: look flt split: option.splits)
  with res show ?thesis by blast
qed

theorem to_dict_merge_witness:
  "\<exists>r. to_dict sample_dict_of (Config_init Settings_defaults
       (PDict [(''port'', PInt 1), (''risk_limits'', PDict [(''max_position'', PInt 10)]),
               (''database_url'', PStr ''postgresql://y'')])) = Inr r \<and>
     map_of r ''port'' = Some (PInt 8000) \<and>
     map_of r ''risk_limits'' = Some (PDict [(''max_position'', PInt 10)]) \<and>
     map_of r ''database_url'' = Some (PStr ''postgresql://y'')"
proof -
  let ?y = "[(''port'', PInt 1), (''risk_limits'', PDict [(''max_position'', PInt 10)]),
             (''database_url'', PStr ''postgresql://y'')]"
  let ?cfg = "Config_init Settings_defaults (PDict ?y)"
  have y: "c_yaml ?cfg = PDict ?y"
    by (simp add: Config_init_def)
  have s: "c_settings ?cfg = Settings_defaults"
    by (simp add: Config_init_def)
  from to_dict_merge [OF y, of sample_dict_of] obtain r where
    r: "to_dict sample_dict_of ?cfg = Inr r"
    and env: "\<And>k v. map_of (Settings_dict (c_settings ?cfg)) k = Some v \<and> v \<noteq> PNone
               \<Longrightarrow> map_of r k = Some v"
    and yaml: "\<And>k v. map_of ?y k = Some v \<and>
                  \<not> (\<exists>w. map_of (Settings_dict (c_settings ?cfg)) k = Some w \<and> w \<noteq> PNone)
               \<Longrightarrow> map_of r k = Some v"
    by blast
  have p: "map_of (Settings_dict Settings_defaults) ''port'' = Some (PInt 8000)"
    by (simp add: Settings_dict_def Settings_defaults_def)
  have rl: "map_of (Settings_dict Settings_defaults) ''risk_limits'' = None"
    by (simp add: Settings_dict_def)
  have u: "map_of (Settings_dict Settings_defaults) ''database_url'' = Some PNone"
    by (simp add: Settings_dict_def Settings_defaults_def opt_str_def)
  have 1: "map_of r ''port'' = Some (PInt 8000)"
    using env [of "''port''" "PInt 8000"] by (simp only: s p) simp
  have 2: "map_of r ''risk_limits'' = Some (PDict [(''max_position'', PInt 10)])"
    using yaml [of "''risk_limits''" "PDict [(''max_position'', PInt 10)]"]
    by (simp only: s rl) simp
  have 3: "map_of r ''database_url'' = Some (PStr ''postgresql://y'')"
    using yaml [of "''database_url''" "PStr ''postgresql://y''"]
    by (simp only: s u) simp
  from r 1 2 3 show ?thesis by blast
qed

section \<open>Lookups in the settings object\<close>

text \<open>
  What \<open>get_env\<close> and the combined lookup do on the keys of the declared fields
  and on the keys that name no attribute of the settings object at all.
\<close>

lemma fst_Settings_dict: "map fst (Settings_dict s) = field_names"
  by (simp add: Settings_dict_def field_names_def)

lemma Settings_dict_None_iff: "map_of (Settings_dict s) name = None \<longleftrightarrow> name \<notin> set field_names"
  by (simp add: map_of_eq_None_iff Settings_dict_def field_names_def)

lemma lower_DATABASE_URL: "lower ''DATABASE_URL'' = ''database_url''"
  by code_simp

lemma lower_dict: "lower ''dict'' = ''dict''"
  by code_simp

lemma dict_no_field: "map_of (Settings_dict s) ''dict'' = None"
  by (simp add: Settings_dict_def)

lemma get_env_field:
  "map_of (Settings_dict (c_settings cfg)) (lower key) = Some v \<Longrightarrow> get_env inh cfg key dflt = v"
  by (simp add: get_env_def Settings_getattr_def)

lemma get_env_case_insensitive:
  "lower k1 = lower k2 \<Longrightarrow> get_env inh cfg k1 dflt = get_env inh cfg k2 dflt"
  by (simp add: get_env_def)

lemma get_env_no_attribute:
  "lower key \<notin> set field_names \<Longrightarrow> lower key \<noteq> ''dict'' \<Longrightarrow> inh (lower key) = None \<Longrightarrow>
   get_env inh cfg key dflt = dflt"
  by (simp add: get_env_def Settings_getattr_def Settings_dict_None_iff [THEN iffD2])

lemma getitem_field_present:
  "map_of (Settings_dict (c_settings cfg)) (lower key) = Some v \<Longrightarrow> \<not> in_empties v \<Longrightarrow>
   getitem inh cfg key = Inr v"
  by (simp add: getitem_def get_env_field)

lemma getitem_field_empty:
  "map_of (Settings_dict (c_settings cfg)) (lower key) = Some v \<Longrightarrow> in_empties v \<Longrightarrow>
   getitem inh cfg key = yaml_get (c_yaml cfg) key PNone"
  by (simp add: getitem_def get_env_field)

lemma getitem_no_attribute:
  "lower key \<notin> set field_names \<Longrightarrow> lower key \<noteq> ''dict'' \<Longrightarrow> inh (lower key) = None \<Longrightarrow>
   getitem inh cfg key = yaml_get (c_yaml cfg) key PNone"
  by (simp add: getitem_def get_env_no_attribute in_empties_def)

lemma getitem_bool_int_fields:
  "lower key = ''debug'' \<Longrightarrow> getitem inh cfg key = Inr (PBool (debug (c_settings cfg)))"
  "lower key = ''port'' \<Longrightarrow> getitem inh cfg key = Inr (PInt (port (c_settings cfg)))"
  "lower key = ''database_echo'' \<Longrightarrow>
     getitem inh cfg key = Inr (PBool (database_echo (c_settings cfg)))"
  "lower key = ''dhan_sandbox'' \<Longrightarrow>
     getitem inh cfg key = Inr (PBool (dhan_sandbox (c_settings cfg)))"
  by (simp_all add: getitem_def get_env_def Settings_getattr_def Settings_dict_def in_empties_def)

text \<open>
  C6. \<open>get_env(key, default)\<close> is to look the key up among the settings without
  regard to case and to return \<open>default\<close> for a key that names no setting. The
  lookup is \<open>getattr\<close> on the settings object, which also finds the members the
  object inherits: for the key \<open>dict\<close>, which names no setting, the call returns the
  bound method \<open>dict\<close> and not the default (here \<open>0\<close>).
\<close>

theorem get_env_dict_is_method:
  "get_env inh cfg ''dict'' dflt = PMethod ''dict'' \<and>
   ''dict'' \<notin> set field_names \<and>
   get_env inh (Config_init Settings_defaults PNone) ''dict'' (PInt 0) \<noteq> PInt 0"
  by (simp add: get_env_def Settings_getattr_def lower_dict dict_no_field field_names_def)

text \<open>
  C1. The combined lookup \<open>cfg[key]\<close> is to return the setting of that name when it
  is present and not empty, and the top-level YAML entry otherwise. For the key
  \<open>dict\<close> there is no setting and the YAML mapping has the entry \<open>1\<close>, yet the
  lookup returns the bound method \<open>dict\<close> of the settings object.
\<close>

theorem getitem_dict_shadows_yaml:
  "getitem inh (Config_init s (PDict [(''dict'', PInt 1)])) ''dict'' = Inr (PMethod ''dict'') \<and>
   map_of (Settings_dict s) (lower ''dict'') = None \<and>
   yaml_get (c_yaml (Config_init s (PDict [(''dict'', PInt 1)]))) ''dict'' PNone = Inr (PInt 1)"
  by (simp add: getitem_def get_env_def Settings_getattr_def lower_dict dict_no_field
      in_empties_def Config_init_def dict_get_def)

text \<open>
  C10. For a key that is neither a setting nor a key of the YAML mapping the combined
  lookup is to return \<open>None\<close>. The key \<open>dict\<close> is neither, with an empty YAML
  mapping, and the lookup returns the bound method \<open>dict\<close> of the settings object.
\<close>

theorem getitem_dict_not_None:
  "getitem inh (Config_init s PNone) ''dict'' = Inr (PMethod ''dict'') \<and>
   map_of (Settings_dict s) (lower ''dict'') = None \<and>
   c_yaml (Config_init s PNone) = PDict []"
  by (simp add: getitem_def get_env_def Settings_getattr_def lower_dict dict_no_field
      in_empties_def Config_init_def)

section \<open>Loading and construction\<close>

lemma get_config_body_path:
  "get_config_body w yaml_path =
     (case load_yaml (w_files w (case yaml_path of None \<Rightarrow> YAML_PATH
                                 | Some p \<Rightarrow> if p = [] then YAML_PATH else Path p)) of
        Inl e \<Rightarrow> Inl e
      | Inr y \<Rightarrow>
          (case w_Settings w of Inl e \<Rightarrow> Inl e | Inr s \<Rightarrow> Inr (Config_init s y)))"
  by (cases yaml_path) (simp_all add: get_config_body_def)

text \<open>
  C3. \<open>_load_yaml\<close> returns an object for every state of the file and raises for
  none; for a file that is missing, cannot be inspected, opened or decoded, or does not
  parse, the object is the empty mapping; and when \<open>Settings()\<close> returns the settings
  object, \<open>get_config\<close> on such a file builds the \<open>Config\<close> of these settings with an
  empty YAML mapping.
\<close>

theorem load_yaml_never_raises:
  "(\<exists>y. load_yaml st = Inr y) \<and>
   (st \<in> {Missing, StatFails, OpenFails, DecodeFails, ParseFails} \<longrightarrow> load_yaml st = Inr (PDict [])) \<and>
   (w_Settings w = Inr s \<and>
    w_files w (case yaml_path of None \<Rightarrow> YAML_PATH
               | Some p \<Rightarrow> if p = [] then YAML_PATH else Path p)
      \<in> {Missing, StatFails, OpenFails, DecodeFails, ParseFails}
    \<longrightarrow> get_config_body w yaml_path = Inr \<lparr> c_settings = s, c_yaml = PDict [] \<rparr>)"
proof -
  have a: "\<exists>y. load_yaml st = Inr y"
    by (simp add: load_yaml_def split: sum.splits)
  have b: "load_yaml st' = Inr (PDict [])"
    if "st' \<in> {Missing, StatFails, OpenFails, DecodeFails, ParseFails}" for st'
    using that by (auto simp: load_yaml_def)
  have c: "get_config_body w yaml_path = Inr \<lparr> c_settings = s, c_yaml = PDict [] \<rparr>"
    if "w_Settings w = Inr s"
      and "w_files w (case yaml_path of None \<Rightarrow> YAML_PATH
               | Some p \<Rightarrow> if p = [] then YAML_PATH else Path p)
      \<in> {Missing, StatFails, OpenFails, DecodeFails, ParseFails}"
    using that(1) b [OF that(2)]
    by (simp add: get_config_body_path Config_init_def)
  from a b c show ?thesis by blast
qed

theorem load_yaml_never_raises_witness:
  "load_yaml ParseFails = Inr (PDict []) \<and>
   get_config_body \<lparr> w_files = (\<lambda>p. Missing), w_Settings = Inr Settings_defaults \<rparr> None
     = Inr \<lparr> c_settings = Settings_defaults, c_yaml = PDict [] \<rparr>"
  using load_yaml_never_raises [of ParseFails
      "\<lparr> w_files = (\<lambda>p. Missing), w_Settings = Inr Settings_defaults \<rparr>" Settings_defaults None]
  by simp

lemma load_yaml_total: "\<exists>y. load_yaml st = Inr y"
  by (cases "load_yaml_try st") (simp_all add: load_yaml_def)

lemma get_config_body_succeeds:
  "w_Settings w = Inr s \<Longrightarrow> \<exists>c. get_config_body w yaml_path = Inr c \<and> c_settings c = s"
proof -
  assume s: "w_Settings w = Inr s"
  obtain y where "load_yaml (w_files w (case yaml_path of None \<Rightarrow> YAML_PATH
                                 | Some p \<Rightarrow> if p = [] then YAML_PATH else Path p)) = Inr y"
    using load_yaml_total by blast
  with s show ?thesis
    by (simp add: get_config_body_path Config_init_def)
qed

text \<open>
  C4. Whatever the process has cached: when \<open>Settings()\<close> returns a settings object,
  also one without \<open>database_url\<close>, a call of \<open>get_config\<close> returns a \<open>Config\<close>
  object and does not raise, and on a miss of the cache the object holds these
  settings. And when the object that \<open>get_config()\<close> returns has no \<open>database_url\<close>
  in its settings, or an empty one, the import of \<open>init_db\<close> in that state raises
  \<open>RuntimeError\<close> from the module body.
\<close>

theorem missing_database_url_fails_at_init_db:
  "(w_Settings w = Inr s
      \<longrightarrow> (\<exists>obj st1. get_config w args st = (Inr obj, st1) \<and>
                     (map_of (cache st) args = None \<longrightarrow> c_settings (snd obj) = s))) \<and>
   (get_config w NoArgs st = (Inr cfg, st') \<and>
    (database_url (c_settings (snd cfg)) = None \<or> database_url (c_settings (snd cfg)) = Some [])
      \<longrightarrow> import_init_db inh w st =
            (Inl (RuntimeError ''DATABASE_URL not set in environment or config.''), st'))"
proof -
  have construct: "\<exists>obj st1. get_config w args st = (Inr obj, st1) \<and>
                     (map_of (cache st) args = None \<longrightarrow> c_settings (snd obj) = s)"
    if s: "w_Settings w = Inr s"
  proof (cases "map_of (cache st) args")
    case None
    from get_config_body_succeeds [OF s, of "arg_value args"] obtain c where
      "get_config_body w (arg_value args) = Inr c" and "c_settings c = s" by blast
    with None show ?thesis
      by (simp add: get_config_def Let_def)
  next
    case (Some obj)
    then show ?thesis
      by (simp add: get_config_def)
  qed
  have raises: "import_init_db inh w st =
            (Inl (RuntimeError ''DATABASE_URL not set in environment or config.''), st')"
    if g: "get_config w NoArgs st = (Inr cfg, st')"
      and u: "database_url (c_settings (snd cfg)) = None \<or>
              database_url (c_settings (snd cfg)) = Some []"
  proof -
    have "map_of (Settings_dict (c_settings (snd cfg))) ''database_url''
        = Some (opt_str (database_url (c_settings (snd cfg))))"
      by (simp add: Settings_dict_def)
    then have url: "get_env inh (snd cfg) ''DATABASE_URL'' PNone
        = opt_str (database_url (c_settings (snd cfg)))"
      by (simp add: get_env_def Settings_getattr_def lower_DATABASE_URL)
    have "\<not> truthy (opt_str (database_url (c_settings (snd cfg))))"
      using u by (auto simp: opt_str_def)
    with url g show ?thesis
      by (simp add: import_init_db_def)
  qed
  from construct raises show ?thesis by blast
qed

theorem missing_database_url_fails_at_init_db_witness:
  "get_config sample_world NoArgs process_start =
     (Inr (0, \<lparr> c_settings = Settings_defaults, c_yaml = PDict [] \<rparr>),
      \<lparr> cache = [(NoArgs, (0, \<lparr> c_settings = Settings_defaults, c_yaml = PDict [] \<rparr>))],
        next_id = Suc 0 \<rparr>) \<and>
   import_init_db sample_inherited sample_world process_start =
     (Inl (RuntimeError ''DATABASE_URL not set in environment or config.''),
      \<lparr> cache = [(NoArgs, (0, \<lparr> c_settings = Settings_defaults, c_yaml = PDict [] \<rparr>))],
        next_id = Suc 0 \<rparr>)"
proof -
  let ?c = "\<lparr> c_settings = Settings_defaults, c_yaml = PDict [] \<rparr>"
  let ?st1 = "\<lparr> cache = [(NoArgs, (0, ?c))], next_id = Suc 0 \<rparr>"
  have g: "get_config sample_world NoArgs process_start = (Inr (0, ?c), ?st1)"
    by (simp add: get_config_def get_config_body_def load_yaml_def Config_init_def
        sample_world_def process_start_def lru_maxsize_def Let_def)
  have u: "database_url (c_settings (snd (0::nat, ?c))) = None \<or>
           database_url (c_settings (snd (0::nat, ?c))) = Some []"
    by (simp add: Settings_defaults_def)
  from missing_database_url_fails_at_init_db
    [of sample_world Settings_defaults NoArgs process_start "(0, ?c)" ?st1 sample_inherited] g u
  have "import_init_db sample_inherited sample_world process_start =
     (Inl (RuntimeError ''DATABASE_URL not set in environment or config.''), ?st1)"
    by blast
  with g show ?thesis by simp
qed

lemma warm_cache_keeps_old_settings:
  "map_of (cache st) NoArgs = Some cfg \<Longrightarrow> fst (get_config w NoArgs st) = Inr cfg"
  by (simp add: get_config_def)

section \<open>Rows of the table models\<close>

lemma construct_fields_supplied:
  "k \<in> fname ` set fs \<Longrightarrow> map_of kwargs k = Some v \<Longrightarrow>
   map_of (construct_fields fs kwargs clock n) k = Some v"
  by (induction fs arbitrary: n) (auto split: option.splits default_spec.splits)

lemma construct_fields_default:
  "find (\<lambda>f. fname f = k) fs = Some f \<Longrightarrow> fdefault f = Default v \<Longrightarrow>
   map_of kwargs k = None \<Longrightarrow>
   map_of (construct_fields fs kwargs clock n) k = Some v"
  by (induction fs arbitrary: n) (auto split: option.splits default_spec.splits if_splits)

lemma construct_fields_factory:
  "reads_clock_first k fs \<Longrightarrow> map_of kwargs k = None \<Longrightarrow>
   map_of (construct_fields fs kwargs clock n) k = Some (PDatetime (clock n))"
  by (induction fs arbitrary: n) (auto split: option.splits default_spec.splits if_splits)

lemma construct_fields_undeclared:
  "k \<notin> fname ` set fs \<Longrightarrow> map_of (construct_fields fs kwargs clock n) k = None"
  by (induction fs arbitrary: n) (auto split: option.splits default_spec.splits)

text \<open>
  C8 (as amended). Eight of the ten models (\<open>User\<close>, \<open>AllInstrumentsList\<close>,
  \<open>InstrumentMaster\<close>, \<open>TradePlan\<close>, \<open>TradeLog\<close>, \<open>TradeLogDetail\<close>,
  \<open>TradeHistory\<close>, \<open>LedgerReport\<close>) declare \<open>created_at\<close> with the clock as default
  factory, and a row constructed without \<open>created_at\<close> holds the first clock reading
  of its construction there; \<open>LiveTrade\<close> and \<open>IndicatorData\<close> declare no field
  \<open>created_at\<close>.
\<close>

theorem created_at_where_declared:
  "(m \<in> set [User, AllInstrumentsList, InstrumentMaster, TradePlan, TradeLog,
              TradeLogDetail, TradeHistory, LedgerReport] \<and>
    map_of kwargs ''created_at'' = None
    \<longrightarrow> FieldDecl ''created_at'' TDatetime False DefaultFactory_utcnow \<in> set (field_decls m) \<and>
        map_of (construct m kwargs clock) ''created_at'' = Some (PDatetime (clock 0))) \<and>
   ''created_at'' \<notin> fname ` set (field_decls LiveTrade) \<and>
   ''created_at'' \<notin> fname ` set (field_decls IndicatorData)"
proof -
  have decl: "FieldDecl ''created_at'' TDatetime False DefaultFactory_utcnow \<in> set (field_decls m)"
    if "m \<in> set [User, AllInstrumentsList, InstrumentMaster, TradePlan, TradeLog,
              TradeLogDetail, TradeHistory, LedgerReport]"
    using that
    by (auto simp: User_def AllInstrumentsList_def InstrumentMaster_def TradePlan_def
        TradeLog_def TradeLogDetail_def TradeHistory_def LedgerReport_def)
  have first: "reads_clock_first ''created_at'' (field_decls m)"
    if "m \<in> set [User, AllInstrumentsList, InstrumentMaster, TradePlan, TradeLog,
              TradeLogDetail, TradeHistory, LedgerReport]"
    using that
    by (auto simp: User_def AllInstrumentsList_def InstrumentMaster_def TradePlan_def
        TradeLog_def TradeLogDetail_def TradeHistory_def LedgerReport_def)
  have live: "''created_at'' \<notin> fname ` set (field_decls LiveTrade)"
    by (simp add: LiveTrade_def)
  have ind: "''created_at'' \<notin> fname ` set (field_decls IndicatorData)"
    by (simp add: IndicatorData_def)
  show ?thesis
    using decl first live ind
    by (auto simp: construct_def intro: construct_fields_factory simp del: set_simps)
qed

theorem created_at_where_declared_witness:
  "map_of (construct User [(''email'', PStr ''a@b.c'')] sample_clock) ''created_at''
     = Some (PDatetime 1700000000)"
proof -
  have 1: "User \<in> set [User, AllInstrumentsList, InstrumentMaster, TradePlan, TradeLog,
              TradeLogDetail, TradeHistory, LedgerReport]" by simp
  have 2: "map_of [(''email'', PStr ''a@b.c'')] ''created_at'' = None" by simp
  from created_at_where_declared [of User "[(''email'', PStr ''a@b.c'')]" sample_clock] 1 2
  have "map_of (construct User [(''email'', PStr ''a@b.c'')] sample_clock) ''created_at''
     = Some (PDatetime (sample_clock 0))" by blast
  then show ?thesis by (simp add: sample_clock_def)
qed

text \<open>
  C8 as stated fails: \<open>LiveTrade\<close> is one of the declared models, it has no field
  \<open>created_at\<close>, and a row constructed from its two required fields holds no
  \<open>created_at\<close>.
\<close>

theorem LiveTrade_row_without_created_at:
  "LiveTrade \<in> set all_models \<and>
   ''created_at'' \<notin> fname ` set (field_decls LiveTrade) \<and>
   map_of (construct LiveTrade
       [(''trading_symbol'', PStr ''NIFTY''), (''instrument'', PStr ''FUTIDX'')] sample_clock)
     ''created_at'' = None"
  by (simp add: all_models_def LiveTrade_def construct_def)

text \<open>
  C9 (as amended). A \<open>TradePlan\<close> row constructed without \<open>execution_flag\<close> holds
  \<open>Disabled\<close>, one of the four listed values; a row constructed with a value for
  \<open>execution_flag\<close> holds that value, whatever it is.
\<close>

theorem execution_flag_default_unconstrained:
  "(map_of kwargs ''execution_flag'' = None
      \<longrightarrow> map_of (construct TradePlan kwargs clock) ''execution_flag'' = Some (PStr ''Disabled'')) \<and>
   (map_of kwargs ''execution_flag'' = Some v
      \<longrightarrow> map_of (construct TradePlan kwargs clock) ''execution_flag'' = Some v) \<and>
   ''Disabled'' \<in> set execution_flags"
proof -
  have f: "find (\<lambda>f. fname f = ''execution_flag'') (field_decls TradePlan)
      = Some (FieldDecl ''execution_flag'' TStr False (Default (PStr ''Disabled'')))"
    by (simp add: TradePlan_def)
  have d: "''execution_flag'' \<in> fname ` set (field_decls TradePlan)"
    by (simp add: TradePlan_def)
  show ?thesis
    using construct_fields_default [OF f, of "PStr ''Disabled''" kwargs clock 0]
      construct_fields_supplied [OF d, of kwargs v clock 0]
    by (simp add: construct_def execution_flags_def)
qed

theorem execution_flag_default_unconstrained_witness:
  "map_of (construct TradePlan [(''trading_symbol'', PStr ''NIFTY'')] sample_clock)
     ''execution_flag'' = Some (PStr ''Disabled'') \<and>
   map_of (construct TradePlan [(''execution_flag'', PStr ''Enabled'')] sample_clock)
     ''execution_flag'' = Some (PStr ''Enabled'')"
  using execution_flag_default_unconstrained
      [where kwargs = "[(''trading_symbol'', PStr ''NIFTY'')]" and clock = sample_clock]
    execution_flag_default_unconstrained
      [where kwargs = "[(''execution_flag'', PStr ''Enabled'')]" and v = "PStr ''Enabled''"
         and clock = sample_clock]
  by simp

text \<open>
  C9 as stated fails: a \<open>TradePlan\<close> row constructed with
  \<open>execution_flag="Paused"\<close> holds \<open>Paused\<close>, which is none of the four listed
  values.
\<close>

theorem execution_flag_outside_listed_values:
  "map_of (construct TradePlan
       [(''trading_symbol'', PStr ''NIFTY''), (''instrument'', PStr ''FUTIDX''),
        (''time_frame'', PStr ''Daily''), (''trade_direction'', PStr ''Bullish''),
        (''trade_type'', PStr ''Swing''), (''trade_setup'', PStr ''Breakout''),
        (''execution_flag'', PStr ''Paused'')] sample_clock)
     ''execution_flag'' = Some (PStr ''Paused'') \<and>
   ''Paused'' \<notin> set execution_flags"
  by (simp add: TradePlan_def construct_def execution_flags_def)

section \<open>The cache of get_config\<close>

text \<open>
  The entry of the call without arguments stays in the table, behind entries of keys
  used since, as long as those keys are fewer than the table holds.
\<close>

lemma map_of_middle:
  "distinct (map fst (pre @ (k, v) # post)) \<Longrightarrow> map_of (pre @ (k, v) # post) k = Some v"
  by (induction pre) auto

lemma distinct_map_butlast: "distinct (map f xs) \<Longrightarrow> distinct (map f (butlast xs))"
  by (simp add: map_butlast distinct_butlast)

lemma get_config_keeps_entry:
  assumes c: "cache st = pre @ (NoArgs, obj) # post"
    and d: "distinct (map fst (cache st))"
    and p: "fst ` set pre \<subseteq> S"
    and a: "args \<in> S \<or> args = NoArgs"
    and fin: "finite S"
    and small: "card S < lru_maxsize"
  shows "\<exists>pre' post'. cache (snd (get_config w args st)) = pre' @ (NoArgs, obj) # post' \<and>
           distinct (map fst (cache (snd (get_config w args st)))) \<and>
           fst ` set pre' \<subseteq> S"
proof (cases "map_of (cache st) args")
  case (Some o')
  show ?thesis
  proof (cases "args = NoArgs")
    case True
    have new: "cache (snd (get_config w args st)) =
        (NoArgs, o') # filter (\<lambda>e. fst e \<noteq> NoArgs) (cache st)"
      using Some True by (simp add: get_config_def)
    have "map_of (cache st) NoArgs = Some obj"
      using map_of_middle [of pre NoArgs obj post] c d by simp
    with Some True have o': "o' = obj" by simp
    have dist: "distinct (map fst ((NoArgs, o') # filter (\<lambda>e. fst e \<noteq> NoArgs) (cache st)))"
      using d by (auto simp: distinct_map_filter)
    show ?thesis
      using new dist o' by (intro exI [of _ "[]"] exI) auto
  next
    case False
    have new: "cache (snd (get_config w args st)) =
        ((args, o') # filter (\<lambda>e. fst e \<noteq> args) pre) @ (NoArgs, obj)
          # filter (\<lambda>e. fst e \<noteq> args) post"
      using Some False c by (simp add: get_config_def)
    have dist: "distinct (map fst (cache (snd (get_config w args st))))"
    proof -
      have "distinct (map fst (filter (\<lambda>e. fst e \<noteq> args) (cache st)))"
        using d by (simp add: distinct_map_filter)
      moreover have "cache (snd (get_config w args st)) =
          (args, o') # filter (\<lambda>e. fst e \<noteq> args) (cache st)"
        using Some by (simp add: get_config_def)
      ultimately show ?thesis by auto
    qed
    have "fst ` set ((args, o') # filter (\<lambda>e. fst e \<noteq> args) pre) \<subseteq> S"
      using p a False by auto
    with new dist show ?thesis by blast
  qed
next
  case None
  then have notin: "args \<notin> fst ` set (cache st)"
    by (simp add: map_of_eq_None_iff)
  with c have neq: "args \<noteq> NoArgs" by auto
  with a have inS: "args \<in> S" by simp
  show ?thesis
  proof (cases "get_config_body w (arg_value args)")
    case (Inl e)
    with None have "snd (get_config w args st) = st"
      by (simp add: get_config_def)
    with c d p show ?thesis by auto
  next
    case (Inr cfg)
    let ?kept = "if length (cache st) \<ge> lru_maxsize then butlast (cache st) else cache st"
    have new: "cache (snd (get_config w args st)) = (args, (next_id st, cfg)) # ?kept"
      using None Inr by (simp add: get_config_def Let_def)
    have kept: "\<exists>post'. ?kept = pre @ (NoArgs, obj) # post'"
    proof (cases "length (cache st) \<ge> lru_maxsize \<and> post = []")
      case True
      then have len: "lru_maxsize \<le> Suc (length pre)"
        using c by auto
      have dp: "distinct (map fst pre)"
        using d c by simp
      have "args \<notin> fst ` set pre"
        using notin c by auto
      then have "card (insert args (fst ` set pre)) = Suc (length pre)"
        using distinct_card [OF dp] by simp
      moreover have "insert args (fst ` set pre) \<subseteq> S"
        using p inS by simp
      ultimately have "Suc (length pre) \<le> card S"
        using card_mono [OF fin] by metis
      with len small show ?thesis by simp
    next
      case False
      then show ?thesis
        using c by (cases "post = []") (auto simp: butlast_append)
    qed
    have sub: "set ?kept \<subseteq> set (cache st)"
      by (auto dest: in_set_butlastD)
    have dk: "distinct (map fst ?kept)"
      using d by (simp add: distinct_map_butlast)
    have "args \<notin> fst ` set ?kept"
      using notin sub by blast
    with dk have dist: "distinct (map fst ((args, (next_id st, cfg)) # ?kept))"
      by simp
    from kept obtain post' where k: "?kept = pre @ (NoArgs, obj) # post'" by blast
    have "cache (snd (get_config w args st)) =
        ((args, (next_id st, cfg)) # pre) @ (NoArgs, obj) # post'"
      using new k by simp
    moreover have "fst ` set ((args, (next_id st, cfg)) # pre) \<subseteq> S"
      using p inS by simp
    ultimately show ?thesis
      using dist new by metis
  qed
qed

lemma run_calls_keeps_entry:
  assumes "cache st = pre @ (NoArgs, obj) # post"
    and "distinct (map fst (cache st))"
    and "fst ` set pre \<subseteq> S"
    and "snd ` set cs \<subseteq> insert NoArgs S"
    and "finite S"
    and "card S < lru_maxsize"
  shows "\<exists>pre' post'. cache (run_calls cs st) = pre' @ (NoArgs, obj) # post' \<and>
           distinct (map fst (cache (run_calls cs st))) \<and>
           fst ` set pre' \<subseteq> S"
  using assms
proof (induction cs arbitrary: st pre post)
  case Nil
  then show ?case by auto
next
  case (Cons c cs)
  obtain w args where c: "c = (w, args)" by (cases c)
  have a: "args \<in> S \<or> args = NoArgs"
    using Cons.prems(4) c by auto
  from get_config_keeps_entry [OF Cons.prems(1) Cons.prems(2) Cons.prems(3) a Cons.prems(5) Cons.prems(6), of w]
  obtain pre' post' where
    1: "cache (snd (get_config w args st)) = pre' @ (NoArgs, obj) # post'"
    and 2: "distinct (map fst (cache (snd (get_config w args st))))"
    and 3: "fst ` set pre' \<subseteq> S"
    by blast
  have 4: "snd ` set cs \<subseteq> insert NoArgs S"
    using Cons.prems(4) by auto
  show ?case
    using Cons.IH [OF 1 2 3 4 Cons.prems(5) Cons.prems(6)] c by simp
qed

lemma get_config_distinct:
  "distinct (map fst (cache st)) \<Longrightarrow> distinct (map fst (cache (snd (get_config w args st))))"
proof (cases "map_of (cache st) args")
  case None
  assume d: "distinct (map fst (cache st))"
  from None have notin: "args \<notin> fst ` set (cache st)"
    by (simp add: map_of_eq_None_iff)
  show ?thesis
  proof (cases "get_config_body w (arg_value args)")
    case (Inl e)
    with None d show ?thesis by (simp add: get_config_def)
  next
    case (Inr cfg)
    let ?kept = "if length (cache st) \<ge> lru_maxsize then butlast (cache st) else cache st"
    have "set ?kept \<subseteq> set (cache st)" by (auto dest: in_set_butlastD)
    with notin have "args \<notin> fst ` set ?kept" by blast
    moreover have "distinct (map fst ?kept)"
      using d by (simp add: distinct_map_butlast)
    ultimately show ?thesis
      using None Inr by (simp add: get_config_def Let_def)
  qed
next
  case (Some o')
  assume d: "distinct (map fst (cache st))"
  then have "distinct (map fst (filter (\<lambda>e. fst e \<noteq> args) (cache st)))"
    by (simp add: distinct_map_filter)
  with Some show ?thesis by (auto simp: get_config_def)
qed

lemma run_calls_distinct:
  "distinct (map fst (cache st)) \<Longrightarrow> distinct (map fst (cache (run_calls cs st)))"
  by (induction cs arbitrary: st) (auto simp: get_config_distinct)

lemma get_config_result_cached:
  assumes "get_config w args st = (Inr obj, st1)"
  shows "\<exists>rest. cache st1 = (args, obj) # rest"
  using assms
  by (auto simp: get_config_def Let_def split: option.splits sum.splits)

text \<open>
  C5 (as amended). After a call \<open>get_config()\<close> has returned an object, at any point
  of a process, a later call \<open>get_config()\<close> returns the same object (the same
  identity and contents), whatever the files and the environment are by then, provided
  the calls made in between use fewer than 128 different argument lists other than the
  empty one.
\<close>

theorem get_config_same_instance:
  assumes first: "get_config w0 NoArgs (run_calls before process_start) = (Inr obj, st1)"
    and few: "length (remdups (filter (\<lambda>a. a \<noteq> NoArgs) (map snd between))) < lru_maxsize"
  shows "fst (get_config w NoArgs (run_calls between st1)) = Inr obj"
proof -
  let ?S = "set (filter (\<lambda>a. a \<noteq> NoArgs) (map snd between))"
  have d0: "distinct (map fst (cache (run_calls before process_start)))"
    by (rule run_calls_distinct) (simp add: process_start_def)
  have d1: "distinct (map fst (cache st1))"
    using get_config_distinct [OF d0, of w0 NoArgs] first by simp
  from get_config_result_cached [OF first] obtain rest where
    c1: "cache st1 = [] @ (NoArgs, obj) # rest" by auto
  have card: "card ?S < lru_maxsize"
    using few by (simp add: length_remdups_card_conv)
  have sub: "snd ` set between \<subseteq> insert NoArgs ?S" by auto
  from run_calls_keeps_entry [OF c1 d1 _ sub _ card]
  obtain pre' post' where
    c: "cache (run_calls between st1) = pre' @ (NoArgs, obj) # post'"
    and d: "distinct (map fst (cache (run_calls between st1)))"
    by auto
  have "map_of (cache (run_calls between st1)) NoArgs = Some obj"
    using map_of_middle [of pre' NoArgs obj post'] c d by simp
  then show ?thesis by (simp add: get_config_def)
qed

theorem get_config_same_instance_witness:
  "fst (get_config sample_world NoArgs
          (run_calls [(sample_world, Positional (Some ''a.yaml'')), (sample_world, NoArgs),
                      (sample_world, Keyword None)]
             (snd (get_config sample_world NoArgs process_start))))
     = Inr (0, \<lparr> c_settings = Settings_defaults, c_yaml = PDict [] \<rparr>)"
proof -
  have 1: "get_config sample_world NoArgs (run_calls [] process_start) =
      (Inr (0, \<lparr> c_settings = Settings_defaults, c_yaml = PDict [] \<rparr>),
       snd (get_config sample_world NoArgs process_start))"
    by (simp add: get_config_def get_config_body_def load_yaml_def Config_init_def
        sample_world_def process_start_def lru_maxsize_def Let_def)
  have 2: "length (remdups (filter (\<lambda>a. a \<noteq> NoArgs)
      (map snd [(sample_world, Positional (Some ''a.yaml'')), (sample_world, NoArgs),
                (sample_world, Keyword None)]))) < lru_maxsize"
    by (simp add: lru_maxsize_def)
  show ?thesis
    by (rule get_config_same_instance [OF 1 2])
qed

lemma run_calls_append: "run_calls (xs @ ys) st = run_calls ys (run_calls xs st)"
  by (induction xs arbitrary: st) auto

lemma override_calls_Suc:
  "override_calls (Suc k) =
     override_calls k @ [(sample_world, Positional (Some (replicate (Suc k) CHR ''p'')))]"
  by (simp add: override_calls_def)

lemma sample_body:
  "get_config_body sample_world p = Inr \<lparr> c_settings = Settings_defaults, c_yaml = PDict [] \<rparr>"
  by (cases p) (simp_all add: get_config_body_def sample_world_def load_yaml_def Config_init_def)

lemma override_entries_fresh:
  "map_of (map (\<lambda>i. (Positional (Some (replicate (Suc i) CHR ''p'')), (Suc i, c))) (rev [0..<k]))
       (Positional (Some (replicate (Suc k) CHR ''p''))) = None"
proof -
  have "Positional (Some (replicate (Suc k) CHR ''p'')) \<notin>
      fst ` set (map (\<lambda>i. (Positional (Some (replicate (Suc i) CHR ''p'')), (Suc i, c))) (rev [0..<k]))"
    by (auto dest: arg_cong [where f = length])
  then show ?thesis
    by (rule map_of_eq_None_iff [THEN iffD2])
qed

lemma run_override_calls:
  assumes "k < lru_maxsize"
  shows "run_calls (override_calls k)
           \<lparr> cache = [(NoArgs, (0, \<lparr> c_settings = Settings_defaults, c_yaml = PDict [] \<rparr>))],
             next_id = Suc 0 \<rparr> =
         \<lparr> cache = map (\<lambda>i. (Positional (Some (replicate (Suc i) CHR ''p'')),
                              (Suc i, \<lparr> c_settings = Settings_defaults, c_yaml = PDict [] \<rparr>)))
                        (rev [0..<k])
                    @ [(NoArgs, (0, \<lparr> c_settings = Settings_defaults, c_yaml = PDict [] \<rparr>))],
           next_id = Suc k \<rparr>"
  using assms
proof (induction k)
  case 0
  show ?case by (simp add: override_calls_def)
next
  case (Suc k)
  then have IH: "run_calls (override_calls k)
           \<lparr> cache = [(NoArgs, (0, \<lparr> c_settings = Settings_defaults, c_yaml = PDict [] \<rparr>))],
             next_id = Suc 0 \<rparr> =
         \<lparr> cache = map (\<lambda>i. (Positional (Some (replicate (Suc i) CHR ''p'')),
                              (Suc i, \<lparr> c_settings = Settings_defaults, c_yaml = PDict [] \<rparr>)))
                        (rev [0..<k])
                    @ [(NoArgs, (0, \<lparr> c_settings = Settings_defaults, c_yaml = PDict [] \<rparr>))],
           next_id = Suc k \<rparr>"
    by simp
  from Suc.prems have small: "\<not> lru_maxsize \<le> Suc k" by simp
  show ?case
    unfolding override_calls_Suc run_calls_append IH
    using small
    by (simp add: get_config_def map_add_def override_entries_fresh sample_body Let_def
        del: replicate.simps)
qed

lemma run_override_calls_full:
  assumes "Suc k = lru_maxsize"
  shows "run_calls (override_calls (Suc k))
           \<lparr> cache = [(NoArgs, (0, \<lparr> c_settings = Settings_defaults, c_yaml = PDict [] \<rparr>))],
             next_id = Suc 0 \<rparr> =
         \<lparr> cache = map (\<lambda>i. (Positional (Some (replicate (Suc i) CHR ''p'')),
                              (Suc i, \<lparr> c_settings = Settings_defaults, c_yaml = PDict [] \<rparr>)))
                        (rev [0..<Suc k]),
           next_id = Suc (Suc k) \<rparr>"
proof -
  from assms have "k < lru_maxsize" by simp
  note before = run_override_calls [OF this]
  from assms have full: "lru_maxsize \<le> Suc k" by simp
  show ?thesis
    unfolding override_calls_Suc run_calls_append before
    using full
    by (simp add: get_config_def map_add_def override_entries_fresh sample_body Let_def
        del: replicate.simps)
qed

lemma no_args_after_overrides:
  "fst (get_config sample_world NoArgs
      \<lparr> cache = map (\<lambda>i. (Positional (Some (replicate (Suc i) CHR ''p'')), (Suc i, c)))
                      (rev [0..<n]),
        next_id = m \<rparr>)
   = Inr (m, \<lparr> c_settings = Settings_defaults, c_yaml = PDict [] \<rparr>)"
proof -
  have "NoArgs \<notin> fst ` set (map (\<lambda>i. (Positional (Some (replicate (Suc i) CHR ''p'')), (Suc i, c)))
      (rev [0..<n]))"
    by auto
  then have "map_of (map (\<lambda>i. (Positional (Some (replicate (Suc i) CHR ''p'')), (Suc i, c)))
      (rev [0..<n])) NoArgs = None"
    by (rule map_of_eq_None_iff [THEN iffD2])
  then show ?thesis
    by (simp add: get_config_def sample_body Let_def del: replicate.simps)
qed

text \<open>
  C5 as stated fails: the table of \<open>lru_cache()\<close> holds 128 entries. After
  \<open>get_config()\<close> and 128 calls with different paths the entry of the first call is
  evicted, and the next \<open>get_config()\<close> builds a new object (identity 129, not 0).
\<close>

theorem get_config_evicted_after_128_overrides:
  "fst (get_config sample_world NoArgs process_start)
     = Inr (0, \<lparr> c_settings = Settings_defaults, c_yaml = PDict [] \<rparr>) \<and>
   fst (get_config sample_world NoArgs
          (run_calls (override_calls 128) (snd (get_config sample_world NoArgs process_start))))
     = Inr (129, \<lparr> c_settings = Settings_defaults, c_yaml = PDict [] \<rparr>)"
proof -
  let ?c = "\<lparr> c_settings = Settings_defaults, c_yaml = PDict [] \<rparr>"
  let ?st1 = "\<lparr> cache = [(NoArgs, (0, ?c))], next_id = Suc 0 \<rparr>"
  have first: "get_config sample_world NoArgs process_start = (Inr (0, ?c), ?st1)"
    by (simp add: get_config_def sample_body process_start_def lru_maxsize_def Let_def)
  have n: "Suc 127 = lru_maxsize"
    by (simp add: lru_maxsize_def)
  have "fst (get_config sample_world NoArgs (run_calls (override_calls (Suc 127)) ?st1))
      = Inr (Suc (Suc 127), ?c)"
    unfolding run_override_calls_full [OF n]
    by (rule no_args_after_overrides)
  moreover have "Suc 127 = (128::nat)" and "Suc (Suc 127) = (129::nat)"
    by simp_all
  ultimately have "fst (get_config sample_world NoArgs (run_calls (override_calls 128) ?st1))
      = Inr (129, ?c)"
    by (simp only:)
  with first show ?thesis by (simp only: fst_conv snd_conv)
qed

end
